theory Spec2Isabelle
  imports Complex_Main "HOL-Library.Word"
begin

section \<open>The search widget of \<^verbatim>\<open>SearchTabs.tsx\<close>\<close>

text \<open>
  The component \<^verbatim>\<open>SearchTabs\<close> keeps eight state variables, issues one HTTP request per
  search and animates a scroll with an easing curve. This theory embeds its handlers as
  functions on an explicit state record and proves what they do.

  Conventions of the embedding.
  \<^item> A JavaScript string is a sequence of UTF-16 code units, so \<open>jsstring\<close> is a list of
    16-bit words. \<open>js ''abc''\<close> is the string of an ASCII literal.
  \<^item> A thrown value is a \<open>js_exn\<close>; a computation that may throw returns \<open>js_exn + 'a\<close>
    with \<open>Inl\<close> the thrown value.
  \<^item> A handler is a closure of one render: the state variables it \<^emph>\<open>reads\<close> are the values
    of that render (the argument called \<open>snap\<close>), and a setter call does not change them.
    The setter calls are applied, in program order, to the state (the argument called
    \<open>st\<close>). A handler that runs after a re-render has \<open>snap = st\<close>.
  \<^item> \<^verbatim>\<open>console.error\<close> only logs and is left out.
\<close>

subsection \<open>Strings\<close>

type_synonym code_unit = "16 word"
type_synonym jsstring = "code_unit list"

definition js :: "string \<Rightarrow> jsstring" where
  "js s = map of_char s"

text \<open>Decimal rendering of an HTTP status, as a template literal renders that number.\<close>

fun digits :: "nat \<Rightarrow> jsstring" where
  "digits n = (if n < 10 then [of_nat (48 + n)] else digits (n div 10) @ [of_nat (48 + n mod 10)])"

declare digits.simps [simp del]

text \<open>
  \<^verbatim>\<open>String.prototype.trim\<close> strips white space and line terminators (ECMA-262, WhiteSpace and
  LineTerminator) from both ends.
\<close>

definition isWhiteSpace :: "code_unit \<Rightarrow> bool" where
  "isWhiteSpace c =
     (c \<in> set [0x9, 0xA, 0xB, 0xC, 0xD, 0x20, 0xA0, 0x1680, 0x2028, 0x2029, 0x202F, 0x205F,
                0x3000, 0xFEFF]
      \<or> (0x2000 \<le> c \<and> c \<le> 0x200A))"

definition trim :: "jsstring \<Rightarrow> jsstring" where
  "trim s = rev (dropWhile isWhiteSpace (rev (dropWhile isWhiteSpace s)))"

subsection \<open>\<^verbatim>\<open>encodeURIComponent\<close>\<close>

text \<open>
  The built-in follows the operation Encode of ECMA-262 with the unreserved set of
  \<^verbatim>\<open>encodeURIComponent\<close>: an unreserved code unit is copied; any other code point is
  written as the \<^verbatim>\<open>%XX\<close> escapes of its UTF-8 octets; an unpaired surrogate throws a
  URIError. \<open>encode\<close> returns \<open>None\<close> where the built-in throws.
\<close>

definition uriUnescaped :: "code_unit \<Rightarrow> bool" where
  "uriUnescaped c =
     ((0x41 \<le> c \<and> c \<le> 0x5A) \<or> (0x61 \<le> c \<and> c \<le> 0x7A) \<or> (0x30 \<le> c \<and> c \<le> 0x39)
      \<or> c \<in> set [0x5F, 0x2D, 0x2E, 0x21, 0x7E, 0x2A, 0x27, 0x28, 0x29])"

definition isLeadSurrogate :: "code_unit \<Rightarrow> bool" where
  "isLeadSurrogate c = (0xD800 \<le> c \<and> c \<le> 0xDBFF)"

definition isTrailSurrogate :: "code_unit \<Rightarrow> bool" where
  "isTrailSurrogate c = (0xDC00 \<le> c \<and> c \<le> 0xDFFF)"

definition pairCodePoint :: "code_unit \<Rightarrow> code_unit \<Rightarrow> nat" where
  "pairCodePoint c d = (unat c - 0xD800) * 0x400 + (unat d - 0xDC00) + 0x10000"

definition utf8 :: "nat \<Rightarrow> nat list" where
  "utf8 cp =
     (if cp < 0x80 then [cp]
      else if cp < 0x800 then [0xC0 + cp div 0x40, 0x80 + cp mod 0x40]
      else if cp < 0x10000 then
        [0xE0 + cp div 0x1000, 0x80 + (cp div 0x40) mod 0x40, 0x80 + cp mod 0x40]
      else
        [0xF0 + cp div 0x40000, 0x80 + (cp div 0x1000) mod 0x40,
         0x80 + (cp div 0x40) mod 0x40, 0x80 + cp mod 0x40])"

definition hexDigit :: "nat \<Rightarrow> code_unit" where
  "hexDigit n = (if n < 10 then of_nat (48 + n) else of_nat (55 + n))"

definition escapeOctet :: "nat \<Rightarrow> jsstring" where
  "escapeOctet b = [0x25, hexDigit (b div 16), hexDigit (b mod 16)]"

definition escapeCodePoint :: "nat \<Rightarrow> jsstring" where
  "escapeCodePoint cp = concat (map escapeOctet (utf8 cp))"

fun encode :: "jsstring \<Rightarrow> jsstring option" where
  "encode [] = Some []"
| "encode (c # cs) =
     (if uriUnescaped c then map_option ((#) c) (encode cs)
      else if \<not> isLeadSurrogate c \<and> \<not> isTrailSurrogate c then
        map_option ((@) (escapeCodePoint (unat c))) (encode cs)
      else if isTrailSurrogate c then None
      else (case cs of
              [] \<Rightarrow> None
            | d # ds \<Rightarrow>
                if isTrailSurrogate d then
                  map_option ((@) (escapeCodePoint (pairCodePoint c d))) (encode ds)
                else None))"

text \<open>\<^verbatim>\<open>String.prototype.isWellFormed\<close>: no unpaired surrogate.\<close>

fun isWellFormed :: "jsstring \<Rightarrow> bool" where
  "isWellFormed [] = True"
| "isWellFormed (c # cs) =
     (if isLeadSurrogate c then
        (case cs of [] \<Rightarrow> False | d # ds \<Rightarrow> isTrailSurrogate d \<and> isWellFormed ds)
      else \<not> isTrailSurrogate c \<and> isWellFormed cs)"

subsection \<open>JSON values, thrown values, the environment\<close>

text \<open>
  The value of a parsed JSON body. A number is kept as the string that ToString gives for
  it (\<^verbatim>\<open>1\<close>, \<^verbatim>\<open>-2.5\<close>, \<^verbatim>\<open>1152921504606847000\<close>, \<^verbatim>\<open>1e+21\<close>, \<^verbatim>\<open>Infinity\<close>): that string and whether
  the number is zero are all this component reads of a number, and both zeros print as
  \<^verbatim>\<open>0\<close>. An object is the list of its own members after parsing, so its keys are distinct.
\<close>

datatype json =
    JNull
  | JBool bool
  | JNum jsstring
  | JStr jsstring
  | JArr "json list"
  | JObj "(jsstring \<times> json) list"

text \<open>
  A thrown value is an instance of \<^verbatim>\<open>Error\<close> with its \<^verbatim>\<open>message\<close>, or anything else.
\<close>

datatype js_exn = JsError jsstring | JsNonError

text \<open>
  What the build and the engine fix: \<^verbatim>\<open>import.meta.env.PROD\<close> (\<open>envPROD\<close>), and the
  messages of the engine's own errors, whose wording differs between engines: the URIError
  of \<^verbatim>\<open>encodeURIComponent\<close>, the TypeError of a property read on \<^verbatim>\<open>null\<close>, and the
  TypeError of converting an object that has no primitive value to a string.
\<close>

record env =
  envPROD :: bool
  uriErrorMessage :: jsstring
  typeErrorMessage :: jsstring
  toPrimitiveErrorMessage :: jsstring

definition encodeURIComponent :: "env \<Rightarrow> jsstring \<Rightarrow> js_exn + jsstring" where
  "encodeURIComponent e s =
     (case encode s of None \<Rightarrow> Inl (JsError (uriErrorMessage e)) | Some r \<Rightarrow> Inr r)"

text \<open>ToBoolean and ToString on a JSON value, as \<^verbatim>\<open>||\<close> and \<^verbatim>\<open>new Error(...)\<close> apply them.\<close>

fun truthy :: "json \<Rightarrow> bool" where
  "truthy JNull = False"
| "truthy (JBool b) = b"
| "truthy (JNum n) = (n \<noteq> js ''0'')"
| "truthy (JStr s) = (s \<noteq> [])"
| "truthy (JArr xs) = True"
| "truthy (JObj kvs) = True"

fun join :: "jsstring \<Rightarrow> jsstring list \<Rightarrow> jsstring" where
  "join sep [] = []"
| "join sep [x] = x"
| "join sep (x # y # ys) = x @ sep @ join sep (y # ys)"

text \<open>The first thrown value of a list of results, or all the values.\<close>

fun collect :: "('e + 'a) list \<Rightarrow> 'e + 'a list" where
  "collect [] = Inr []"
| "collect (Inl x # rs) = Inl x"
| "collect (Inr v # rs) = map_sum id ((#) v) (collect rs)"

text \<open>
  ToString. An array prints as \<^verbatim>\<open>Array.prototype.join\<close> does: its elements, \<^verbatim>\<open>null\<close> as the
  empty string, with commas between them. An object prints as \<^verbatim>\<open>[object Object]\<close> through the
  inherited \<^verbatim>\<open>toString\<close>; when it has a member \<^verbatim>\<open>toString\<close> of its own, which is never a
  function, neither that member nor \<^verbatim>\<open>valueOf\<close> yields a primitive and a TypeError is thrown.
\<close>

fun to_string :: "env \<Rightarrow> json \<Rightarrow> js_exn + jsstring" where
  "to_string e JNull = Inr (js ''null'')"
| "to_string e (JBool b) = Inr (if b then js ''true'' else js ''false'')"
| "to_string e (JNum n) = Inr n"
| "to_string e (JStr s) = Inr s"
| "to_string e (JArr xs) =
     map_sum id (join (js '',''))
       (collect (map (\<lambda>x. if x = JNull then Inr [] else to_string e x) xs))"
| "to_string e (JObj kvs) =
     (if map_of kvs (js ''toString'') \<noteq> None then Inl (JsError (toPrimitiveErrorMessage e))
      else Inr (js ''[object Object]''))"

text \<open>
  The property read \<^verbatim>\<open>errorData.error\<close>: a TypeError on \<^verbatim>\<open>null\<close>, the member of an object,
  \<^verbatim>\<open>undefined\<close> (here \<open>None\<close>) on anything else.
\<close>

fun get_error :: "env \<Rightarrow> json \<Rightarrow> js_exn + json option" where
  "get_error e JNull = Inl (JsError (typeErrorMessage e))"
| "get_error e (JObj kvs) = Inr (map_of kvs (js ''error''))"
| "get_error e v = Inr None"

subsection \<open>The HTTP response\<close>

text \<open>
  A settled \<^verbatim>\<open>fetch\<close>: the promise rejects with a thrown value or resolves with a response.
  Of a response the handler reads \<^verbatim>\<open>ok\<close>, \<^verbatim>\<open>status\<close>, \<^verbatim>\<open>statusText\<close> and \<^verbatim>\<open>json()\<close>;
  \<open>body\<close> is how \<^verbatim>\<open>json()\<close> settles (\<open>Inl\<close>: the body is not JSON and the promise rejects).
  \<^verbatim>\<open>ok\<close> is the Fetch standard's: the status is in the range 200 to 299.
\<close>

record response =
  status :: nat
  statusText :: jsstring
  body :: "js_exn + json"

definition ok :: "response \<Rightarrow> bool" where
  "ok r = (200 \<le> status r \<and> status r \<le> 299)"

datatype fetch_outcome = Rejects js_exn | Resolves response

text \<open>The network, mocked: the outcome of \<^verbatim>\<open>fetch(url)\<close> (a GET, no options are passed).\<close>

type_synonym network = "jsstring \<Rightarrow> fetch_outcome"

subsection \<open>The component state\<close>

record search_state =
  keyword :: jsstring
  contentType :: jsstring
  isLoading :: bool
  hasSearched :: bool
  results :: json
  error :: "jsstring option"
  showQuestionOptions :: bool
  showKeywordOptions :: bool

definition initial_state :: search_state where
  "initial_state =
     \<lparr>keyword = [], contentType = js ''all'', isLoading = False, hasSearched = False,
      results = JArr [], error = None, showQuestionOptions = True, showKeywordOptions = True\<rparr>"

definition setKeyword :: "jsstring \<Rightarrow> search_state \<Rightarrow> search_state" where
  "setKeyword v st = st\<lparr>keyword := v\<rparr>"

definition setContentType :: "jsstring \<Rightarrow> search_state \<Rightarrow> search_state" where
  "setContentType v st = st\<lparr>contentType := v\<rparr>"

definition setIsLoading :: "bool \<Rightarrow> search_state \<Rightarrow> search_state" where
  "setIsLoading v st = st\<lparr>isLoading := v\<rparr>"

definition setHasSearched :: "bool \<Rightarrow> search_state \<Rightarrow> search_state" where
  "setHasSearched v st = st\<lparr>hasSearched := v\<rparr>"

definition setResults :: "json \<Rightarrow> search_state \<Rightarrow> search_state" where
  "setResults v st = st\<lparr>results := v\<rparr>"

definition setError :: "jsstring option \<Rightarrow> search_state \<Rightarrow> search_state" where
  "setError v st = st\<lparr>error := v\<rparr>"

definition setShowQuestionOptions :: "bool \<Rightarrow> search_state \<Rightarrow> search_state" where
  "setShowQuestionOptions v st = st\<lparr>showQuestionOptions := v\<rparr>"

definition setShowKeywordOptions :: "bool \<Rightarrow> search_state \<Rightarrow> search_state" where
  "setShowKeywordOptions v st = st\<lparr>showKeywordOptions := v\<rparr>"

subsection \<open>\<^verbatim>\<open>handleSearch\<close>\<close>

text \<open>The messages the handler builds (lines 120, 125, 136 and 144 of the source).\<close>

definition statusLine :: "response \<Rightarrow> jsstring" where
  "statusLine r = js ''Error: '' @ digits (status r) @ js '' '' @ statusText r"

definition unavailableMessage :: "response \<Rightarrow> jsstring" where
  "unavailableMessage r = statusLine r @ js ''. The API endpoint may not be available.''"

definition invalidResponseMessage :: jsstring where
  "invalidResponseMessage =
     js ''The API returned an invalid response. Please check server configuration.''"

definition unknownErrorMessage :: jsstring where
  "unknownErrorMessage = js ''An unknown error occurred''"

text \<open>
  Lines 116 to 121, the body of the inner \<^verbatim>\<open>try\<close> on a response that is not ok. It always
  throws: what \<^verbatim>\<open>response.json()\<close> rejects with, the TypeError of \<^verbatim>\<open>null.error\<close>, the
  TypeError of converting \<^verbatim>\<open>errorData.error\<close> to a message, or the \<^verbatim>\<open>Error\<close> made from
  \<^verbatim>\<open>errorData.error || `Error: ...`\<close>. The result is the thrown value.
\<close>

definition errorBodyThrow :: "env \<Rightarrow> response \<Rightarrow> js_exn" where
  "errorBodyThrow e r =
     (case body r of
        Inl x \<Rightarrow> x
      | Inr errorData \<Rightarrow>
          (case get_error e errorData of
             Inl x \<Rightarrow> x
           | Inr None \<Rightarrow> JsError (statusLine r)
           | Inr (Some m) \<Rightarrow>
               (if truthy m then (case to_string e m of Inl x \<Rightarrow> x | Inr s \<Rightarrow> JsError s)
                else JsError (statusLine r))))"

text \<open>
  Lines 122 to 127, the \<^verbatim>\<open>catch (jsonError)\<close> of that \<^verbatim>\<open>try\<close>: it receives whatever the
  body threw, does not read it, and throws its own \<^verbatim>\<open>Error\<close>.
\<close>

definition errorBodyCatch :: "response \<Rightarrow> js_exn \<Rightarrow> js_exn" where
  "errorBodyCatch r jsonError = JsError (unavailableMessage r)"

text \<open>Lines 130 to 138: parsing the body of an ok response.\<close>

definition parseData :: "response \<Rightarrow> js_exn + json" where
  "parseData r =
     (case body r of
        Inl jsonError \<Rightarrow> Inl (JsError invalidResponseMessage)
      | Inr data \<Rightarrow> Inr data)"

text \<open>Lines 115 to 138: the outer \<^verbatim>\<open>try\<close> once the response is there.\<close>

definition onResponse :: "env \<Rightarrow> response \<Rightarrow> js_exn + json" where
  "onResponse e r =
     (if \<not> ok r then Inl (errorBodyCatch r (errorBodyThrow e r)) else parseData r)"

text \<open>Lines 105 to 113: the URL of the request.\<close>

definition baseUrl :: "env \<Rightarrow> jsstring" where
  "baseUrl e = (if envPROD e then js ''https://lzindex-server.onrender.com'' else [])"

definition searchUrl :: "env \<Rightarrow> jsstring \<Rightarrow> jsstring \<Rightarrow> jsstring" where
  "searchUrl e q t = baseUrl e @ js ''/api/search?q='' @ q @ js ''&type='' @ t"

text \<open>
  Lines 140 to 149: \<^verbatim>\<open>setResults(data)\<close> when the \<^verbatim>\<open>try\<close> block completed, the outer
  \<^verbatim>\<open>catch\<close> when it threw, then \<^verbatim>\<open>finally\<close>. The setters act on the state of the moment.
\<close>

definition errorText :: "js_exn \<Rightarrow> jsstring" where
  "errorText err = (case err of JsError m \<Rightarrow> m | JsNonError \<Rightarrow> unknownErrorMessage)"

definition settle :: "js_exn + json \<Rightarrow> search_state \<Rightarrow> search_state" where
  "settle res st =
     setIsLoading False
       (case res of
          Inr data \<Rightarrow> setResults data st
        | Inl err \<Rightarrow> setResults (JArr []) (setError (Some (errorText err)) st))"

text \<open>
  \<^verbatim>\<open>handleSearch\<close> up to its first \<^verbatim>\<open>await\<close> (lines 96 to 113): the guard, the five setter
  calls, and the call of \<^verbatim>\<open>fetch\<close>. The result says how the synchronous part ended:
  it returned at the guard, \<^verbatim>\<open>encodeURIComponent\<close> threw before \<^verbatim>\<open>fetch\<close> was called, or
  the request to the URL is in flight.
\<close>

datatype pending = Returned | Threw js_exn | Awaiting jsstring

definition beginSearch :: "search_state \<Rightarrow> search_state" where
  "beginSearch st =
     setShowKeywordOptions False
       (setShowQuestionOptions False (setHasSearched True (setError None (setIsLoading True st))))"

definition handleSearchSync :: "env \<Rightarrow> search_state \<Rightarrow> search_state \<Rightarrow> search_state \<times> pending"
  where
  "handleSearchSync e snap st =
     (if trim (keyword snap) = [] then (st, Returned)
      else
        (beginSearch st,
         case encodeURIComponent e (keyword snap) of
           Inl x \<Rightarrow> Threw x
         | Inr q \<Rightarrow> Awaiting (searchUrl e q (contentType snap))))"

text \<open>The rest of \<^verbatim>\<open>handleSearch\<close>, run when \<^verbatim>\<open>fetch\<close> settles, on the state of that moment.\<close>

definition handleSearchResume :: "env \<Rightarrow> fetch_outcome \<Rightarrow> search_state \<Rightarrow> search_state" where
  "handleSearchResume e out st =
     settle (case out of Rejects x \<Rightarrow> Inl x | Resolves r \<Rightarrow> onResponse e r) st"

text \<open>
  One whole run of \<^verbatim>\<open>handleSearch\<close> with no other event in between: the final state and
  the URLs that were fetched.
\<close>

definition handleSearch ::
  "env \<Rightarrow> network \<Rightarrow> search_state \<Rightarrow> search_state \<Rightarrow> search_state \<times> jsstring list" where
  "handleSearch e net snap st =
     (case handleSearchSync e snap st of
        (st1, Returned) \<Rightarrow> (st1, [])
      | (st1, Threw x) \<Rightarrow> (settle (Inl x) st1, [])
      | (st1, Awaiting url) \<Rightarrow> (handleSearchResume e (net url) st1, [url]))"

subsection \<open>The other handlers\<close>

text \<open>
  Lines 152 to 160: \<^verbatim>\<open>setKeyword(selected); handleSearch()\<close>. The \<^verbatim>\<open>handleSearch\<close> called is
  the closure of the render in which the chip was clicked, so it reads that render's
  \<^verbatim>\<open>keyword\<close>, not the one just set.
\<close>

definition handleKeywordClick ::
  "env \<Rightarrow> network \<Rightarrow> jsstring \<Rightarrow> search_state \<Rightarrow> search_state \<times> jsstring list" where
  "handleKeywordClick e net selectedKeyword st =
     handleSearch e net st (setKeyword selectedKeyword st)"

definition handleQuestionClick ::
  "env \<Rightarrow> network \<Rightarrow> jsstring \<Rightarrow> search_state \<Rightarrow> search_state \<times> jsstring list" where
  "handleQuestionClick e net question st = handleSearch e net st (setKeyword question st)"

definition handleKeyDown ::
  "env \<Rightarrow> network \<Rightarrow> jsstring \<Rightarrow> search_state \<Rightarrow> search_state \<times> jsstring list" where
  "handleKeyDown e net key st = (if key = js ''Enter'' then handleSearch e net st st else (st, []))"

text \<open>The input's \<^verbatim>\<open>onChange\<close> (line 230); the component renders again before the next event.\<close>

definition onChange :: "jsstring \<Rightarrow> search_state \<Rightarrow> search_state" where
  "onChange v st = setKeyword v st"

text \<open>Typing a text into the input, then pressing Enter in it.\<close>

definition typeThenEnter ::
  "env \<Rightarrow> network \<Rightarrow> jsstring \<Rightarrow> search_state \<Rightarrow> search_state \<times> jsstring list" where
  "typeThenEnter e net v st = handleKeyDown e net (js ''Enter'') (onChange v st)"

definition toggleQuestionOptions :: "search_state \<Rightarrow> search_state" where
  "toggleQuestionOptions st = setShowQuestionOptions (\<not> showQuestionOptions st) st"

definition toggleKeywordOptions :: "search_state \<Rightarrow> search_state" where
  "toggleKeywordOptions st = setShowKeywordOptions (\<not> showKeywordOptions st) st"


subsection \<open>The easing curve\<close>

text \<open>Lines 46 and 47, over the rationals; \<^verbatim>\<open>Math.pow(x, 2)\<close> is the square.\<close>

definition easeInOutQuad :: "rat \<Rightarrow> rat" where
  "easeInOutQuad t = (if t < 1 / 2 then 2 * t * t else 1 - (- 2 * t + 2)\<^sup>2 / 2)"

subsection \<open>Simulated inputs\<close>

definition mockEnv :: env where
  "mockEnv =
     \<lparr>envPROD = False, uriErrorMessage = js ''URI malformed'',
      typeErrorMessage = js ''Cannot read properties of null'',
      toPrimitiveErrorMessage = js ''Cannot convert object to primitive value''\<rparr>"

definition dbDown :: response where
  "dbDown =
     \<lparr>status = 500, statusText = js ''Internal Server Error'',
      body = Inr (JObj [(js ''error'', JStr (js ''db down''))])\<rparr>"

definition notFound :: response where
  "notFound = \<lparr>status = 404, statusText = js ''Not Found'', body = Inr (JStr (js ''gone''))\<rparr>"

definition notJson :: response where
  "notJson =
     \<lparr>status = 200, statusText = js ''OK'', body = Inl (JsError (js ''Unexpected token''))\<rparr>"

definition oneResult :: response where
  "oneResult =
     \<lparr>status = 200, statusText = js ''OK'', body = Inr (JArr [JObj [(js ''id'', JNum (js ''1''))]])\<rparr>"

text \<open>
  States the examples start from: a query of white space only, a query typed into the
  pristine widget, the widget after an earlier search, a query with an unpaired surrogate,
  and a query with characters that need escaping.
\<close>

definition blankQuery :: search_state where
  "blankQuery = setResults (JArr [JNum (js ''1'')]) (setKeyword [0x20, 0x9, 0xA0, 0x3000] initial_state)"

definition searchingDVN :: search_state where
  "searchingDVN = onChange (js ''DVN'') initial_state"

definition searchedBefore :: search_state where
  "searchedBefore =
     setContentType (js ''news'')
       (fst (typeThenEnter mockEnv (\<lambda>url. Resolves oneResult) (js ''DVN'') initial_state))"

definition loneSurrogate :: search_state where
  "loneSurrogate = onChange [0xD800] initial_state"

definition searchingSpecial :: search_state where
  "searchingSpecial = onChange (js ''a b&c'') initial_state"

text \<open>
  The widget after a search that the server answered with the 500 response; and two
  presses of Enter on the query \<open>DVN\<close> with no settlement in between (the input's
  \<^verbatim>\<open>onKeyDown\<close> is not disabled while loading), then the text replaced by a space
  while the first request is in flight.
\<close>

definition failedBefore :: search_state where
  "failedBefore = fst (typeThenEnter mockEnv (\<lambda>url. Resolves dbDown) (js ''DVN'') initial_state)"




section \<open>Properties\<close>

subsection \<open>Auxiliary facts\<close>

lemmas setters =
  setKeyword_def setContentType_def setIsLoading_def setHasSearched_def setResults_def
  setError_def setShowQuestionOptions_def setShowKeywordOptions_def

lemma dropWhile_all_iff: "(\<forall>x\<in>set (dropWhile P xs). P x) \<longleftrightarrow> (\<forall>x\<in>set xs. P x)"
  by (induction xs) auto

lemma trim_empty_iff: "trim s = [] \<longleftrightarrow> (\<forall>c\<in>set s. isWhiteSpace c)"
  by (simp add: trim_def dropWhile_eq_Nil_conv dropWhile_all_iff)

lemma isLoading_settle: "isLoading (settle res st) = False"
  by (simp add: settle_def setters split: sum.split)


lemma handleSearch_blank: "trim (keyword snap) = [] \<Longrightarrow> handleSearch e net snap st = (st, [])"
  by (simp add: handleSearch_def handleSearchSync_def)

lemma handleSearch_threw:
  "trim (keyword snap) \<noteq> [] \<Longrightarrow> encode (keyword snap) = None \<Longrightarrow>
   handleSearch e net snap st = (settle (Inl (JsError (uriErrorMessage e))) (beginSearch st), [])"
  by (simp add: handleSearch_def handleSearchSync_def encodeURIComponent_def)

lemma handleSearch_sent:
  "trim (keyword snap) \<noteq> [] \<Longrightarrow> encode (keyword snap) = Some q \<Longrightarrow>
   handleSearch e net snap st =
     (handleSearchResume e (net (searchUrl e q (contentType snap))) (beginSearch st),
      [searchUrl e q (contentType snap)])"
  by (simp add: handleSearch_def handleSearchSync_def encodeURIComponent_def)


lemma ease_lower_half: "0 \<le> x \<Longrightarrow> x \<le> y \<Longrightarrow> (2::rat) * x * x \<le> 2 * y * y"
proof -
  assume "0 \<le> x" "x \<le> y"
  then have "x * x \<le> y * y" by (intro mult_mono) auto
  then show ?thesis by simp
qed

lemma ease_upper_half:
  assumes "x \<le> y" "y \<le> (1::rat)"
  shows "1 - (- 2 * x + 2)\<^sup>2 / 2 \<le> 1 - (- 2 * y + 2)\<^sup>2 / 2"
proof -
  have "(- 2 * y + 2)\<^sup>2 \<le> (- 2 * x + 2)\<^sup>2"
    using assms by (intro power_mono) auto
  then show ?thesis by simp
qed

lemma ease_mono:
  assumes "0 \<le> x" "x \<le> y" "y \<le> 1"
  shows "easeInOutQuad x \<le> easeInOutQuad y"
proof -
  consider (low) "y < 1 / 2" | (mixed) "x < 1 / 2" "1 / 2 \<le> y" | (high) "1 / 2 \<le> x"
    by linarith
  then show ?thesis
  proof cases
    case low
    with assms have "x < 1 / 2" by simp
    with low assms show ?thesis
      by (simp add: easeInOutQuad_def ease_lower_half del: mult_le_cancel_left)
  next
    case mixed
    have "2 * x * x \<le> 2 * (1 / 2) * (1 / 2)"
      using assms mixed by (intro ease_lower_half) auto
    also have "\<dots> = 1 - (- 2 * (1 / 2) + 2)\<^sup>2 / (2::rat)"
      by (simp add: power2_eq_square)
    also have "\<dots> \<le> 1 - (- 2 * y + 2)\<^sup>2 / 2"
      using assms mixed by (intro ease_upper_half) auto
    finally show ?thesis
      using mixed by (simp add: easeInOutQuad_def)
  next
    case high
    with assms have "1 / 2 \<le> y" by simp
    with high assms show ?thesis
      using ease_upper_half [of x y] by (simp add: easeInOutQuad_def)
  qed
qed

lemma settle_error_Inl: "error (settle (Inl x) st) = Some (errorText x)"
  by (simp add: settle_def setters)

lemma settle_results_Inl: "results (settle (Inl x) st) = JArr []"
  by (simp add: settle_def setters)

lemma settle_Inr: "results (settle (Inr d) st) = d \<and> error (settle (Inr d) st) = error st"
  by (simp add: settle_def setters)

lemma onResponse_not_ok: "\<not> ok r \<Longrightarrow> onResponse e r = Inl (JsError (unavailableMessage r))"
  by (simp add: onResponse_def errorBodyCatch_def)

lemma onResponse_malformed:
  "ok r \<Longrightarrow> body r = Inl x \<Longrightarrow> onResponse e r = Inl (JsError invalidResponseMessage)"
  by (simp add: onResponse_def parseData_def)

lemma invalid_not_status: "invalidResponseMessage \<noteq> statusLine r @ rest"
  by (simp add: invalidResponseMessage_def statusLine_def js_def)

lemma results_handleSearchResume:
  "results (handleSearchResume e out st) =
     (case out of
        Rejects x \<Rightarrow> JArr []
      | Resolves r \<Rightarrow>
          if ok r then (case body r of Inl x \<Rightarrow> JArr [] | Inr d \<Rightarrow> d) else JArr [])"
  by (simp add: handleSearchResume_def onResponse_def parseData_def errorBodyCatch_def
      settle_results_Inl settle_Inr split: fetch_outcome.split sum.split)

subsection \<open>Facts about \<^verbatim>\<open>encodeURIComponent\<close>\<close>

lemma hexDigits_safe: "list_all (\<lambda>n. uriUnescaped (hexDigit n)) [0..<16]"
  by code_simp

lemma hexDigit_safe: "n < 16 \<Longrightarrow> uriUnescaped (hexDigit n)"
  using hexDigits_safe by (simp add: list_all_iff)

lemma escapeOctet_safe: "b < 256 \<Longrightarrow> \<forall>c\<in>set (escapeOctet b). uriUnescaped c \<or> c = 0x25"
proof -
  assume "b < 256"
  then have "b div 16 < 16" "b mod 16 < 16" by auto
  then show ?thesis by (simp add: escapeOctet_def hexDigit_safe)
qed

lemma utf8_octets: "cp < 0x110000 \<Longrightarrow> \<forall>b\<in>set (utf8 cp). b < 256"
  by (auto simp: utf8_def)

lemma escapeCodePoint_safe:
  "cp < 0x110000 \<Longrightarrow> \<forall>c\<in>set (escapeCodePoint cp). uriUnescaped c \<or> c = 0x25"
  using utf8_octets [of cp] escapeOctet_safe by (auto simp: escapeCodePoint_def)

lemma unat_code_unit: "unat (c :: code_unit) < 0x110000"
  using unsigned_less [of c, where ?'a = nat] by simp

lemma pairCodePoint_range:
  "isLeadSurrogate c \<Longrightarrow> isTrailSurrogate d \<Longrightarrow> pairCodePoint c d < 0x110000"
  by (simp add: isLeadSurrogate_def isTrailSurrogate_def pairCodePoint_def word_le_nat_alt) linarith

lemma encode_safe: "encode s = Some q \<Longrightarrow> \<forall>c\<in>set q. uriUnescaped c \<or> c = 0x25"
proof (induction s arbitrary: q rule: encode.induct)
  case 1
  then show ?case by simp
next
  case (2 c cs)
  show ?case
  proof (cases "uriUnescaped c")
    case True
    with 2 show ?thesis by auto
  next
    case unesc: False
    show ?thesis
    proof (cases "\<not> isLeadSurrogate c \<and> \<not> isTrailSurrogate c")
      case True
      with 2 unesc escapeCodePoint_safe [OF unat_code_unit [of c]] show ?thesis by auto
    next
      case False
      with 2(4) unesc obtain d ds q' where
        cs: "cs = d # ds" and lead: "isLeadSurrogate c" and trail: "isTrailSurrogate d" and
        q': "encode ds = Some q'" and q: "q = escapeCodePoint (pairCodePoint c d) @ q'"
        by (auto split: if_splits list.splits)
      have "\<not> isTrailSurrogate c"
        using lead by (simp add: isLeadSurrogate_def isTrailSurrogate_def word_le_nat_alt)
      with 2(3) [OF unesc _ _ cs trail q'] False
      have "\<forall>c\<in>set q'. uriUnescaped c \<or> c = 0x25" by simp
      with escapeCodePoint_safe [OF pairCodePoint_range [OF lead trail]] q
      show ?thesis by auto
    qed
  qed
qed

lemma unescaped_not_surrogate:
  "uriUnescaped c \<Longrightarrow> \<not> isLeadSurrogate c \<and> \<not> isTrailSurrogate c"
  by (auto simp: uriUnescaped_def isLeadSurrogate_def isTrailSurrogate_def word_le_nat_alt)

lemma lead_not_trail: "isLeadSurrogate c \<Longrightarrow> \<not> isTrailSurrogate c"
  by (simp add: isLeadSurrogate_def isTrailSurrogate_def word_le_nat_alt)

lemma encode_None_iff: "encode s = None \<longleftrightarrow> \<not> isWellFormed s"
proof (induction s rule: encode.induct)
  case 1
  then show ?case by simp
next
  case (2 c cs)
  show ?case
  proof (cases "uriUnescaped c")
    case True
    with 2(1) unescaped_not_surrogate [OF True] show ?thesis by simp
  next
    case unesc: False
    show ?thesis
    proof (cases "isLeadSurrogate c")
      case False
      with 2(2) unesc show ?thesis by simp
    next
      case True
      note nt = lead_not_trail [OF True]
      show ?thesis
      proof (cases cs)
        case Nil
        with True nt unesc show ?thesis by simp
      next
        case (Cons d ds)
        with 2(3) [OF unesc _ nt Cons] True nt unesc show ?thesis by simp
      qed
    qed
  qed
qed

section \<open>The claims\<close>

subsection \<open>Error responses\<close>

text \<open>
  Claim C1. A submit of a non-empty query that receives a response that is not 2xx, whose body
  parses as JSON with a string field \<open>error\<close> (a 500 with body \<^verbatim>\<open>{"error":"db down"}\<close>), should
  store exactly that string in \<open>error\<close> and make \<open>results\<close> empty.

  The code does not: the inner \<^verbatim>\<open>try\<close> throws the \<^verbatim>\<open>Error\<close> with the message \<open>db down\<close>, and
  the \<^verbatim>\<open>catch\<close> of that same \<^verbatim>\<open>try\<close>, meant for a body that is not JSON, replaces it. The run
  below is the simulated 500 response received for the query \<open>DVN\<close>.
\<close>

theorem db_down_message_is_replaced:
  "errorBodyThrow mockEnv dbDown = JsError (js ''db down'') \<and>
   typeThenEnter mockEnv (\<lambda>url. Resolves dbDown) (js ''DVN'') initial_state =
     (\<lparr>keyword = js ''DVN'', contentType = js ''all'', isLoading = False, hasSearched = True,
       results = JArr [],
       error =
         Some (js ''Error: 500 Internal Server Error. The API endpoint may not be available.''),
       showQuestionOptions = False, showKeywordOptions = False\<rparr>,
      [js ''/api/search?q=DVN&type=all''])"
  by code_simp

subsection \<open>Suggestion chips\<close>

text \<open>
  Claim C2. Selecting a suggestion chip with label \<open>s\<close> should end in the same state as setting
  the query text to \<open>s\<close> and pressing Enter, for the same mocked response.

  The code does not: \<^verbatim>\<open>handleKeywordClick\<close> and \<^verbatim>\<open>handleQuestionClick\<close> call the
  \<^verbatim>\<open>handleSearch\<close> of the current render, which still reads the old \<^verbatim>\<open>keyword\<close>. On the
  pristine widget the click only fills the input and sends nothing, where typing the label
  and pressing Enter searches; after the text \<open>Oracle\<close> was typed, the click on \<open>DVN\<close> sends
  the query \<open>Oracle\<close>.
\<close>

theorem chip_click_reads_the_old_keyword:
  "handleKeywordClick mockEnv (\<lambda>url. Resolves oneResult) (js ''DVN'') initial_state =
     (\<lparr>keyword = js ''DVN'', contentType = js ''all'', isLoading = False, hasSearched = False,
       results = JArr [], error = None, showQuestionOptions = True, showKeywordOptions = True\<rparr>,
      []) \<and>
   handleQuestionClick mockEnv (\<lambda>url. Resolves oneResult) (js ''DVN'') initial_state =
     handleKeywordClick mockEnv (\<lambda>url. Resolves oneResult) (js ''DVN'') initial_state \<and>
   typeThenEnter mockEnv (\<lambda>url. Resolves oneResult) (js ''DVN'') initial_state =
     (\<lparr>keyword = js ''DVN'', contentType = js ''all'', isLoading = False, hasSearched = True,
       results = JArr [JObj [(js ''id'', JNum (js ''1''))]], error = None,
       showQuestionOptions = False, showKeywordOptions = False\<rparr>,
      [js ''/api/search?q=DVN&type=all'']) \<and>
   snd (handleKeywordClick mockEnv (\<lambda>url. Resolves oneResult) (js ''DVN'')
          (onChange (js ''Oracle'') initial_state)) =
     [js ''/api/search?q=Oracle&type=all'']"
  by code_simp

subsection \<open>The start of a request\<close>

text \<open>
  Claim C3, as stated: at the start of every new request (a submit whose trimmed query is not
  empty) both \<open>results\<close> and \<open>error\<close> are cleared before the request is issued. It fails for
  \<open>results\<close>: after an earlier search the request for \<open>DVN\<close> is in flight and the old results
  are still there.
\<close>

theorem results_not_cleared_at_start:
  "snd (handleSearchSync mockEnv searchedBefore searchedBefore) =
     Awaiting (js ''/api/search?q=DVN&type=news'') \<and>
   results (fst (handleSearchSync mockEnv searchedBefore searchedBefore)) =
     JArr [JObj [(js ''id'', JNum (js ''1''))]] \<and>
   results (fst (handleSearchSync mockEnv searchedBefore searchedBefore)) \<noteq> JArr []"
  by code_simp

text \<open>
  Claim C3, amended: at the start of every new request \<open>error\<close> is set to null before the
  request is issued, and the start leaves \<open>results\<close> as it was. When the request settles,
  \<open>results\<close> becomes the parsed body on a 2xx response whose body parses, and the empty
  sequence on every other outcome: a status that is not 2xx, a 2xx body that is not JSON, a
  rejected \<^verbatim>\<open>fetch\<close>, and the URIError thrown before the request. The last conjunct is the
  whole run of a submit.
\<close>

theorem start_clears_error_keeps_results:
  assumes "trim (keyword snap) \<noteq> []"
  shows
    "error (fst (handleSearchSync e snap st)) = None \<and>
     results (fst (handleSearchSync e snap st)) = results st \<and>
     results (handleSearchResume e out st') =
       (case out of
          Rejects x \<Rightarrow> JArr []
        | Resolves r \<Rightarrow>
            if ok r then (case body r of Inl x \<Rightarrow> JArr [] | Inr d \<Rightarrow> d) else JArr []) \<and>
     results (fst (handleSearch e net snap st)) =
       (case encode (keyword snap) of
          None \<Rightarrow> JArr []
        | Some q \<Rightarrow>
            (case net (searchUrl e q (contentType snap)) of
               Rejects x \<Rightarrow> JArr []
             | Resolves r \<Rightarrow>
                 if ok r then (case body r of Inl x \<Rightarrow> JArr [] | Inr d \<Rightarrow> d) else JArr []))"
proof -
  have start:
    "error (fst (handleSearchSync e snap st)) = None \<and>
     results (fst (handleSearchSync e snap st)) = results st"
    using assms by (simp add: handleSearchSync_def beginSearch_def setters)
  have run:
    "results (fst (handleSearch e net snap st)) =
       (case encode (keyword snap) of
          None \<Rightarrow> JArr []
        | Some q \<Rightarrow>
            (case net (searchUrl e q (contentType snap)) of
               Rejects x \<Rightarrow> JArr []
             | Resolves r \<Rightarrow>
                 if ok r then (case body r of Inl x \<Rightarrow> JArr [] | Inr d \<Rightarrow> d) else JArr []))"
  proof (cases "encode (keyword snap)")
    case None
    with assms show ?thesis by (simp add: handleSearch_threw settle_results_Inl)
  next
    case (Some q)
    with assms show ?thesis by (simp add: handleSearch_sent results_handleSearchResume)
  qed
  from start run show ?thesis by (simp add: results_handleSearchResume)
qed

text \<open>
  The theorem at the state left by the 500 response, where \<open>error\<close> is set, answered by the
  200 response; and at the state left by an earlier search, where \<open>results\<close> is not empty,
  answered by the 500 response.
\<close>

theorem start_clears_error_keeps_results_witness:
  "trim (keyword failedBefore) \<noteq> [] \<and>
   error failedBefore =
     Some (js ''Error: 500 Internal Server Error. The API endpoint may not be available.'') \<and>
   error (fst (handleSearchSync mockEnv failedBefore failedBefore)) = None \<and>
   results searchedBefore = JArr [JObj [(js ''id'', JNum (js ''1''))]] \<and>
   results (fst (handleSearchSync mockEnv searchedBefore searchedBefore)) =
     JArr [JObj [(js ''id'', JNum (js ''1''))]] \<and>
   results (fst (handleSearch mockEnv (\<lambda>url. Resolves dbDown) searchedBefore searchedBefore)) =
     JArr [] \<and>
   results (fst (handleSearch mockEnv (\<lambda>url. Resolves oneResult) failedBefore failedBefore)) =
     JArr [JObj [(js ''id'', JNum (js ''1''))]]"
proof -
  have ne: "trim (keyword failedBefore) \<noteq> []" "trim (keyword searchedBefore) \<noteq> []"
    and before:
      "error failedBefore =
         Some (js ''Error: 500 Internal Server Error. The API endpoint may not be available.'')"
      "results searchedBefore = JArr [JObj [(js ''id'', JNum (js ''1''))]]"
    and enc: "encode (keyword failedBefore) = Some (js ''DVN'')"
      "encode (keyword searchedBefore) = Some (js ''DVN'')"
    and resp: "\<not> ok dbDown" "ok oneResult"
      "body oneResult = Inr (JArr [JObj [(js ''id'', JNum (js ''1''))]])"
    by code_simp+
  from start_clears_error_keeps_results
    [OF ne(1), where e = mockEnv and st = failedBefore and net = "\<lambda>url. Resolves oneResult"]
    start_clears_error_keeps_results
    [OF ne(2), where e = mockEnv and st = searchedBefore and net = "\<lambda>url. Resolves dbDown"]
    ne before enc resp
  show ?thesis by simp
qed

subsection \<open>Blank queries\<close>

text \<open>
  Claim C4. For a query whose text is empty or only white space, submit issues no request and
  leaves all of the state unchanged.
\<close>

theorem blank_query_is_ignored:
  "\<forall>c\<in>set (keyword snap). isWhiteSpace c \<Longrightarrow> handleSearch e net snap st = (st, [])"
  by (simp add: handleSearch_blank trim_empty_iff)

text \<open>The theorem at a query of a space, a tab, a no-break space and an ideographic space.\<close>

theorem blank_query_is_ignored_witness:
  "list_all isWhiteSpace (keyword blankQuery) \<and>
   handleSearch mockEnv (\<lambda>url. Resolves oneResult) blankQuery blankQuery = (blankQuery, [])"
proof -
  have ws: "\<forall>c\<in>set (keyword blankQuery). isWhiteSpace c"
    by (simp add: blankQuery_def setters initial_state_def isWhiteSpace_def)
  then show ?thesis
    using blank_query_is_ignored [OF ws] by (simp add: list_all_iff)
qed

subsection \<open>The loading flag\<close>




subsection \<open>Malformed bodies\<close>

text \<open>
  Claim C6. For every 2xx response whose body is not valid JSON, submit sets \<open>error\<close> to the
  message "The API returned an invalid response. Please check server configuration.", which
  differs from the server-error message; the body is not taken for an empty result list
  without an error. The second conjunct is the whole run of a submit that receives \<open>r\<close>.
\<close>

theorem malformed_body_is_an_error:
  assumes "ok r" and "body r = Inl x"
  shows
    "error (handleSearchResume e (Resolves r) st) =
       Some (js ''The API returned an invalid response. Please check server configuration.'') \<and>
     (trim (keyword snap) \<noteq> [] \<and> encode (keyword snap) = Some q \<and>
      net (searchUrl e q (contentType snap)) = Resolves r \<longrightarrow>
        error (fst (handleSearch e net snap st)) =
          Some (js ''The API returned an invalid response. Please check server configuration.'')) \<and>
     js ''The API returned an invalid response. Please check server configuration.'' \<noteq>
       unavailableMessage r' \<and>
     js ''The API returned an invalid response. Please check server configuration.'' \<noteq>
       statusLine r'"
proof -
  have resume: "error (handleSearchResume e (Resolves r) s) = Some invalidResponseMessage" for s
    using assms
    by (simp add: handleSearchResume_def onResponse_malformed settle_error_Inl errorText_def)
  have "invalidResponseMessage \<noteq> unavailableMessage r'"
    by (simp add: unavailableMessage_def invalid_not_status)
  moreover have "invalidResponseMessage \<noteq> statusLine r'"
    using invalid_not_status [of r' "[]"] by simp
  ultimately show ?thesis
    using resume by (auto simp: handleSearch_sent invalidResponseMessage_def)
qed

text \<open>The theorem at the simulated 200 response with body \<^verbatim>\<open>not json\<close>.\<close>

theorem malformed_body_is_an_error_witness:
  "ok notJson \<and>
   error (fst (handleSearch mockEnv (\<lambda>url. Resolves notJson) searchingDVN searchingDVN)) =
     Some (js ''The API returned an invalid response. Please check server configuration.'') \<and>
   js ''The API returned an invalid response. Please check server configuration.'' \<noteq>
     unavailableMessage dbDown"
proof -
  have r: "ok notJson" "body notJson = Inl (JsError (js ''Unexpected token''))"
    by (simp_all add: ok_def notJson_def)
  have q: "trim (keyword searchingDVN) \<noteq> []" "encode (keyword searchingDVN) = Some (js ''DVN'')"
    by code_simp+
  from malformed_body_is_an_error
    [OF r, where e = mockEnv and snap = searchingDVN and q = "js ''DVN''"
       and net = "\<lambda>url. Resolves notJson" and r' = dbDown] q r(1)
  show ?thesis by blast
qed

subsection \<open>The easing curve\<close>

text \<open>
  Claim C7. Over exact rational arithmetic the easing function
  \<open>f t = (if t < 1/2 then 2 t\<^sup>2 else 1 - (-2 t + 2)\<^sup>2 / 2)\<close> has \<open>f 0 = 0\<close>, \<open>f 1 = 1\<close>,
  \<open>f (1/2) = 1/2\<close>, and is monotonically non-decreasing on the interval from 0 to 1.
\<close>

theorem easeInOutQuad_curve:
  "easeInOutQuad 0 = 0 \<and> easeInOutQuad 1 = 1 \<and> easeInOutQuad (1 / 2) = 1 / 2 \<and>
   (\<forall>x y. 0 \<le> x \<and> x \<le> y \<and> y \<le> 1 \<longrightarrow> easeInOutQuad x \<le> easeInOutQuad y)"
proof -
  have "easeInOutQuad 0 = 0" "easeInOutQuad 1 = 1" "easeInOutQuad (1 / 2) = 1 / 2"
    by (simp_all add: easeInOutQuad_def power2_eq_square)
  then show ?thesis using ease_mono by blast
qed

text \<open>The theorem used at \<open>x = 1/4\<close> and \<open>y = 3/4\<close>.\<close>

theorem easeInOutQuad_curve_witness:
  "easeInOutQuad (1 / 4) = 1 / 8 \<and> easeInOutQuad (3 / 4) = 7 / 8 \<and>
   easeInOutQuad (1 / 4) \<le> easeInOutQuad (3 / 4)"
proof -
  have "(0::rat) \<le> 1 / 4 \<and> (1::rat) / 4 \<le> 3 / 4 \<and> (3::rat) / 4 \<le> 1" by simp
  then have "easeInOutQuad (1 / 4) \<le> easeInOutQuad (3 / 4)"
    using easeInOutQuad_curve by blast
  moreover have "easeInOutQuad (1 / 4) = 1 / 8" "easeInOutQuad (3 / 4) = 7 / 8"
    by (simp_all add: easeInOutQuad_def power2_eq_square)
  ultimately show ?thesis by simp
qed

subsection \<open>Switching tabs\<close>




subsection \<open>The request\<close>

text \<open>
  Claim C9, as stated: for every query with non-empty trimmed text, submit issues exactly one
  GET request whose URL carries the text percent-encoded as \<open>q\<close> and the selected content
  type verbatim as \<open>type\<close>. It fails for a text with an unpaired surrogate, which is not
  white space: \<^verbatim>\<open>encodeURIComponent\<close> throws inside the \<^verbatim>\<open>try\<close>, \<^verbatim>\<open>fetch\<close> is never called and
  the URIError's message becomes the error.
\<close>

theorem no_request_for_lone_surrogate:
  "trim (keyword loneSurrogate) \<noteq> [] \<and>
   handleSearch mockEnv (\<lambda>url. Resolves oneResult) loneSurrogate loneSurrogate =
     (\<lparr>keyword = [0xD800], contentType = js ''all'', isLoading = False, hasSearched = True,
       results = JArr [], error = Some (js ''URI malformed''),
       showQuestionOptions = False, showKeywordOptions = False\<rparr>,
      [])"
  by code_simp

text \<open>
  Claim C9, amended: for every query with non-empty trimmed text and no unpaired surrogate,
  submit issues exactly one GET request; its URL is the base, \<^verbatim>\<open>/api/search?q=\<close>, the text as
  \<^verbatim>\<open>encodeURIComponent\<close> encodes it (unreserved characters and \<^verbatim>\<open>%XX\<close> escapes only),
  \<^verbatim>\<open>&type=\<close> and the selected content type verbatim. For a text with an unpaired surrogate
  no request is issued and \<open>error\<close> is the message of the URIError.
\<close>

theorem one_request_when_well_formed:
  assumes "trim (keyword snap) \<noteq> []"
  shows
    "(isWellFormed (keyword snap) \<longrightarrow>
        (\<exists>q. encode (keyword snap) = Some q \<and> (\<forall>c\<in>set q. uriUnescaped c \<or> c = 0x25) \<and>
             snd (handleSearch e net snap st) =
               [baseUrl e @ js ''/api/search?q='' @ q @ js ''&type='' @ contentType snap])) \<and>
     (\<not> isWellFormed (keyword snap) \<longrightarrow>
        snd (handleSearch e net snap st) = [] \<and>
        error (fst (handleSearch e net snap st)) = Some (uriErrorMessage e))"
proof (cases "encode (keyword snap)")
  case None
  with assms show ?thesis
    using encode_None_iff [of "keyword snap"]
    by (simp add: handleSearch_threw settle_error_Inl errorText_def)
next
  case (Some q)
  with assms encode_safe [OF Some] show ?thesis
    using encode_None_iff [of "keyword snap"]
    by (simp add: handleSearch_sent searchUrl_def)
qed

text \<open>The theorem at the query \<^verbatim>\<open>a b&c\<close> with the filter \<open>all\<close>.\<close>

theorem one_request_when_well_formed_witness:
  "trim (keyword searchingSpecial) \<noteq> [] \<and> isWellFormed (keyword searchingSpecial) \<and>
   snd (handleSearch mockEnv (\<lambda>url. Resolves oneResult) searchingSpecial searchingSpecial) =
     [js ''/api/search?q=a%20b%26c&type=all'']"
proof -
  have ne: "trim (keyword searchingSpecial) \<noteq> []"
    and wf: "isWellFormed (keyword searchingSpecial)"
    and enc: "encode (keyword searchingSpecial) = Some (js ''a%20b%26c'')"
    and url: "baseUrl mockEnv @ js ''/api/search?q='' @ js ''a%20b%26c'' @ js ''&type='' @
                contentType searchingSpecial = js ''/api/search?q=a%20b%26c&type=all''"
    by code_simp+
  from one_request_when_well_formed [OF ne, of mockEnv "\<lambda>url. Resolves oneResult" searchingSpecial]
    wf enc url
  have "snd (handleSearch mockEnv (\<lambda>url. Resolves oneResult) searchingSpecial searchingSpecial) =
          [js ''/api/search?q=a%20b%26c&type=all'']"
    by auto
  with ne wf show ?thesis by simp
qed

subsection \<open>What a response that is not ok leaves\<close>

text \<open>
  Claim C10. For every response that is not 2xx, whether or not its body parses as JSON and
  whatever \<open>error\<close> field it holds, submit sets \<open>error\<close> to
  "Error: <status> <statusText>. The API endpoint may not be available.", because the throw
  that carries the server's message is inside the \<^verbatim>\<open>try\<close> whose \<^verbatim>\<open>catch\<close> replaces it. The
  second conjunct is the whole run of a submit that receives \<open>r\<close>.
\<close>

theorem not_ok_gives_unavailable_message:
  assumes "\<not> ok r"
  shows
    "error (handleSearchResume e (Resolves r) st) =
       Some (js ''Error: '' @ digits (status r) @ js '' '' @ statusText r @
             js ''. The API endpoint may not be available.'') \<and>
     (trim (keyword snap) \<noteq> [] \<and> encode (keyword snap) = Some q \<and>
      net (searchUrl e q (contentType snap)) = Resolves r \<longrightarrow>
        error (fst (handleSearch e net snap st)) =
          Some (js ''Error: '' @ digits (status r) @ js '' '' @ statusText r @
                js ''. The API endpoint may not be available.''))"
proof -
  have "error (handleSearchResume e (Resolves r) s) = Some (unavailableMessage r)" for s
    using assms
    by (simp add: handleSearchResume_def onResponse_not_ok settle_error_Inl errorText_def)
  then show ?thesis
    by (auto simp: handleSearch_sent unavailableMessage_def statusLine_def)
qed

text \<open>The theorem at a 404 whose body is the JSON string \<open>gone\<close>, for the query \<open>DVN\<close>.\<close>

theorem not_ok_gives_unavailable_message_witness:
  "\<not> ok notFound \<and>
   error (fst (handleSearch mockEnv (\<lambda>url. Resolves notFound) searchingDVN searchingDVN)) =
     Some (js ''Error: 404 Not Found. The API endpoint may not be available.'')"
proof -
  have r: "\<not> ok notFound" by (simp add: ok_def notFound_def)
  have q: "trim (keyword searchingDVN) \<noteq> []" "encode (keyword searchingDVN) = Some (js ''DVN'')"
    and m: "js ''Error: '' @ digits (status notFound) @ js '' '' @ statusText notFound @
              js ''. The API endpoint may not be available.'' =
            js ''Error: 404 Not Found. The API endpoint may not be available.''"
    by code_simp+
  from not_ok_gives_unavailable_message
    [OF r, where e = mockEnv and snap = searchingDVN and q = "js ''DVN''"
       and net = "\<lambda>url. Resolves notFound"] q m r
  show ?thesis by auto
qed

section \<open>Further properties of \<^verbatim>\<open>handleSearch\<close>\<close>

text \<open>
  A 2xx response whose body parses is stored verbatim: a whole run that receives it ends with
  \<open>results\<close> the parsed value and \<open>error\<close> null.
\<close>

theorem parsed_body_is_stored:
  assumes "ok r" and "body r = Inr d"
  shows
    "results (handleSearchResume e (Resolves r) st) = d \<and>
     error (handleSearchResume e (Resolves r) st) = error st \<and>
     (trim (keyword snap) \<noteq> [] \<and> encode (keyword snap) = Some q \<and>
      net (searchUrl e q (contentType snap)) = Resolves r \<longrightarrow>
        results (fst (handleSearch e net snap st)) = d \<and>
        error (fst (handleSearch e net snap st)) = None)"
proof -
  have "onResponse e r = Inr d"
    using assms by (simp add: onResponse_def parseData_def)
  then have "results (handleSearchResume e (Resolves r) s) = d \<and>
             error (handleSearchResume e (Resolves r) s) = error s" for s
    by (simp add: handleSearchResume_def settle_Inr)
  then show ?thesis
    by (auto simp: handleSearch_sent beginSearch_def setters)
qed

text \<open>The theorem at the simulated 200 response with body \<^verbatim>\<open>[{"id":1}]\<close>.\<close>

theorem parsed_body_is_stored_witness:
  "ok oneResult \<and>
   results (fst (handleSearch mockEnv (\<lambda>url. Resolves oneResult) searchingDVN searchingDVN)) =
     JArr [JObj [(js ''id'', JNum (js ''1''))]] \<and>
   error (fst (handleSearch mockEnv (\<lambda>url. Resolves oneResult) searchingDVN searchingDVN)) = None"
proof -
  have r: "ok oneResult" "body oneResult = Inr (JArr [JObj [(js ''id'', JNum (js ''1''))]])"
    by (simp_all add: ok_def oneResult_def)
  have q: "trim (keyword searchingDVN) \<noteq> []" "encode (keyword searchingDVN) = Some (js ''DVN'')"
    by code_simp+
  from parsed_body_is_stored
    [OF r, where e = mockEnv and snap = searchingDVN and q = "js ''DVN''"
       and net = "\<lambda>url. Resolves oneResult"] q r(1)
  show ?thesis by blast
qed

text \<open>
  A rejected \<^verbatim>\<open>fetch\<close> leaves the message of the thrown \<^verbatim>\<open>Error\<close> in \<open>error\<close>, or
  "An unknown error occurred" when the thrown value is not an \<^verbatim>\<open>Error\<close>, and empties \<open>results\<close>.
\<close>

theorem rejected_fetch_is_an_error:
  "error (handleSearchResume e (Rejects (JsError m)) st) = Some m \<and>
   error (handleSearchResume e (Rejects JsNonError) st) = Some (js ''An unknown error occurred'') \<and>
   results (handleSearchResume e (Rejects x) st) = JArr [] \<and>
   \<not> isLoading (handleSearchResume e (Rejects x) st)"
  by (simp add: handleSearchResume_def settle_error_Inl settle_results_Inl isLoading_settle
      errorText_def unknownErrorMessage_def)

end
